theory Spec2Isabelle
  imports Main
begin

section \<open>JavaScript values\<close>

text \<open>
  A property of a JavaScript object is absent (reading it gives \<open>undefined\<close>), holds
  \<open>null\<close>, or holds a value. The source writes \<open>null\<close> literals (\<open>definition: null\<close>,
  \<open>maxLineLength: null\<close>), leaves properties out (\<open>json: { confluentSchemaRegistry: false }\<close>)
  and tests with \<open>!= null\<close>, which is false for both \<open>null\<close> and \<open>undefined\<close>.
\<close>

datatype 'a js = Undefined | Null | Val 'a

fun not_nullish :: "'a js \<Rightarrow> bool" where
  "not_nullish Undefined = False"
| "not_nullish Null = False"
| "not_nullish (Val _) = True"

text \<open>\<open>Array.prototype.find\<close>: the first element satisfying the predicate, or \<open>undefined\<close>.\<close>

fun js_find :: "('a \<Rightarrow> bool) \<Rightarrow> 'a list \<Rightarrow> 'a js" where
  "js_find P [] = Undefined"
| "js_find P (x # xs) = (if P x then Val x else js_find P xs)"

section \<open>The service contract: \<open>ApiGrpc\<close>\<close>

datatype MethodKind = Unary | ServerStreaming | ClientStreaming | BiDiStreaming

text \<open>
  One entry of \<open>ApiGrpc.methods\<close>: the property key, then \<open>name\<close>, \<open>I\<close>, \<open>O\<close> (the request
  and response message classes, by name) and \<open>kind\<close>.
\<close>

record method_info =
  key :: string
  name :: string
  I_type :: string
  O_type :: string
  kind :: MethodKind

definition typeName :: string where
  "typeName = ''arroyo_api.ApiGrpc''"

definition methods :: "method_info list" where
  "methods = [
    \<lparr>key = ''createConnection'', name = ''CreateConnection'', I_type = ''CreateConnectionReq'',
      O_type = ''CreateConnectionResp'', kind = Unary\<rparr>,
    \<lparr>key = ''testConnection'', name = ''TestConnection'', I_type = ''CreateConnectionReq'',
      O_type = ''TestSourceMessage'', kind = Unary\<rparr>,
    \<lparr>key = ''getConnections'', name = ''GetConnections'', I_type = ''GetConnectionsReq'',
      O_type = ''GetConnectionsResp'', kind = Unary\<rparr>,
    \<lparr>key = ''deleteConnection'', name = ''DeleteConnection'', I_type = ''DeleteConnectionReq'',
      O_type = ''DeleteConnectionResp'', kind = Unary\<rparr>,
    \<lparr>key = ''createSource'', name = ''CreateSource'', I_type = ''CreateSourceReq'',
      O_type = ''CreateSourceResp'', kind = Unary\<rparr>,
    \<lparr>key = ''getSources'', name = ''GetSources'', I_type = ''GetSourcesReq'',
      O_type = ''GetSourcesResp'', kind = Unary\<rparr>,
    \<lparr>key = ''deleteSource'', name = ''DeleteSource'', I_type = ''DeleteSourceReq'',
      O_type = ''DeleteSourceResp'', kind = Unary\<rparr>,
    \<lparr>key = ''createSink'', name = ''CreateSink'', I_type = ''CreateSinkReq'',
      O_type = ''CreateSinkResp'', kind = Unary\<rparr>,
    \<lparr>key = ''getSinks'', name = ''GetSinks'', I_type = ''GetSinksReq'',
      O_type = ''GetSinksResp'', kind = Unary\<rparr>,
    \<lparr>key = ''deleteSink'', name = ''DeleteSink'', I_type = ''DeleteSinkReq'',
      O_type = ''DeleteSinkResp'', kind = Unary\<rparr>,
    \<lparr>key = ''getConfluentSchema'', name = ''GetConfluentSchema'', I_type = ''ConfluentSchemaReq'',
      O_type = ''ConfluentSchemaResp'', kind = Unary\<rparr>,
    \<lparr>key = ''getSourceMetadata'', name = ''GetSourceMetadata'', I_type = ''CreateSourceReq'',
      O_type = ''SourceMetadataResp'', kind = Unary\<rparr>,
    \<lparr>key = ''testSchema'', name = ''TestSchema'', I_type = ''CreateSourceReq'',
      O_type = ''TestSchemaResp'', kind = Unary\<rparr>,
    \<lparr>key = ''testSource'', name = ''TestSource'', I_type = ''CreateSourceReq'',
      O_type = ''TestSourceMessage'', kind = ServerStreaming\<rparr>,
    \<lparr>key = ''createPipeline'', name = ''CreatePipeline'', I_type = ''CreatePipelineReq'',
      O_type = ''CreatePipelineResp'', kind = Unary\<rparr>,
    \<lparr>key = ''graphForPipeline'', name = ''GraphForPipeline'', I_type = ''PipelineGraphReq'',
      O_type = ''PipelineGraphResp'', kind = Unary\<rparr>,
    \<lparr>key = ''getPipeline'', name = ''GetPipeline'', I_type = ''GetPipelineReq'',
      O_type = ''PipelineDef'', kind = Unary\<rparr>,
    \<lparr>key = ''createJob'', name = ''CreateJob'', I_type = ''CreateJobReq'',
      O_type = ''CreateJobResp'', kind = Unary\<rparr>,
    \<lparr>key = ''deleteJob'', name = ''DeleteJob'', I_type = ''DeleteJobReq'',
      O_type = ''DeleteJobResp'', kind = Unary\<rparr>,
    \<lparr>key = ''startPipeline'', name = ''StartPipeline'', I_type = ''CreatePipelineReq'',
      O_type = ''CreateJobResp'', kind = Unary\<rparr>,
    \<lparr>key = ''previewPipeline'', name = ''PreviewPipeline'', I_type = ''CreatePipelineReq'',
      O_type = ''CreateJobResp'', kind = Unary\<rparr>,
    \<lparr>key = ''getJobs'', name = ''GetJobs'', I_type = ''GetJobsReq'',
      O_type = ''GetJobsResp'', kind = Unary\<rparr>,
    \<lparr>key = ''getJobDetails'', name = ''GetJobDetails'', I_type = ''JobDetailsReq'',
      O_type = ''JobDetailsResp'', kind = Unary\<rparr>,
    \<lparr>key = ''getCheckpoints'', name = ''GetCheckpoints'', I_type = ''JobCheckpointsReq'',
      O_type = ''JobCheckpointsResp'', kind = Unary\<rparr>,
    \<lparr>key = ''getCheckpointDetail'', name = ''GetCheckpointDetail'', I_type = ''CheckpointDetailsReq'',
      O_type = ''CheckpointDetailsResp'', kind = Unary\<rparr>,
    \<lparr>key = ''getOperatorErrors'', name = ''GetOperatorErrors'', I_type = ''OperatorErrorsReq'',
      O_type = ''OperatorErrorsRes'', kind = Unary\<rparr>,
    \<lparr>key = ''getJobMetrics'', name = ''GetJobMetrics'', I_type = ''JobMetricsReq'',
      O_type = ''JobMetricsResp'', kind = Unary\<rparr>,
    \<lparr>key = ''updateJob'', name = ''UpdateJob'', I_type = ''UpdateJobReq'',
      O_type = ''UpdateJobResp'', kind = Unary\<rparr>,
    \<lparr>key = ''subscribeToOutput'', name = ''SubscribeToOutput'', I_type = ''GrpcOutputSubscription'',
      O_type = ''OutputData'', kind = ServerStreaming\<rparr>
  ]"

section \<open>The connection schema under construction\<close>

text \<open>
  The literals the handlers write: a field \<open>{ fieldName, fieldType: { type: { primitive } },
  nullable }\<close>, a definition \<open>{ json_schema: text }\<close> or \<open>{ raw_schema: text }\<close>, a format
  \<open>{ json: { unstructured, confluentSchemaRegistry } }\<close> or \<open>{ raw_string: {} }\<close>, and a
  framing \<open>{ method: { newline: { maxLineLength } } }\<close>.
\<close>

datatype field_type = primitive string

record source_field =
  fieldName :: string
  fieldType :: field_type
  nullable :: bool

datatype schema_definition = json_schema string | raw_schema string

record json_format =
  unstructured :: "bool js"
  confluentSchemaRegistry :: "bool js"

datatype format = json json_format | raw_string

datatype framing_method = newline (maxLineLength: "nat js")

datatype framing = Framing (method': framing_method)

text \<open>
  Modelled from the spec: the declarations of \<open>CreateConnectionState\<close> (imported from
  \<open>./CreateConnection\<close>) and of the schema type it holds are not among the source files.
  The spec gives the draft as \<open>{ connectorId, connectionProfileId: optional, schema:
  { format, framing, fields, definition: optional } }\<close>. The handlers read
  \<open>state.connectionProfileId\<close> and \<open>state.schema\<close> and copy everything else with
  \<open>...state\<close>: the state is an extensible record, whose \<open>more\<close> part stands for the
  properties the handlers never name. The schema has the four properties of the spec, each
  of which may be absent, and the schema itself may be \<open>null\<close> or absent (the handlers
  spread it, which is defined for both).
\<close>

record connection_schema =
  format :: "format js"
  framing :: "framing js"
  fields' :: "source_field list js"
  definition' :: "schema_definition js"

record create_connection_state =
  connectionProfileId :: "string js"
  schema :: "connection_schema js"

text \<open>
  The object spread \<open>{ ...state.schema }\<close>: the properties of the schema, none when it is
  \<open>null\<close> or \<open>undefined\<close>.
\<close>

fun spread_schema :: "connection_schema js \<Rightarrow> connection_schema" where
  "spread_schema (Val s) = s"
| "spread_schema _ =
     \<lparr>format = Undefined, framing = Undefined, fields' = Undefined, definition' = Undefined\<rparr>"

subsection \<open>\<open>JsonEditor\<close>: the schema-type select\<close>

text \<open>
  \<open>onChange\<close> of the schema-type select, on \<open>e.target.value\<close>. The \<open>switch\<close> has three
  cases and no default. The handler also records the chosen option in the component's own
  \<open>selectedSchemaType\<close>, which is not part of the draft; the function below is the argument
  of \<open>setState\<close>, or the state as it was when \<open>setState\<close> is not called.
\<close>

definition onChange ::
  "string \<Rightarrow> 'a create_connection_state_scheme \<Rightarrow> 'a create_connection_state_scheme" where
  "onChange v state =
     (if v = ''json'' then
        state\<lparr>schema := Val ((spread_schema (schema state))\<lparr>
          definition' := Val (json_schema ''''),
          fields' := Val [],
          format := Val (json \<lparr>unstructured = Val False, confluentSchemaRegistry = Val False\<rparr>)\<rparr>)\<rparr>
      else if v = ''confluent'' then
        state\<lparr>schema := Val ((spread_schema (schema state))\<lparr>
          definition' := Null,
          fields' := Val [],
          format := Val (json \<lparr>unstructured = Val False, confluentSchemaRegistry = Val True\<rparr>)\<rparr>)\<rparr>
      else if v = ''unstructured'' then
        state\<lparr>schema := Val ((spread_schema (schema state))\<lparr>
          definition' := Val (raw_schema ''value''),
          fields' := Val [],
          format := Val (json \<lparr>unstructured = Val True, confluentSchemaRegistry = Val False\<rparr>)\<rparr>)\<rparr>
      else state)"

subsection \<open>\<open>RawStringEditor\<close>: the Continue button\<close>

text \<open>
  \<open>submit\<close> sets the draft and then calls \<open>next()\<close>, the caller's callback that advances
  the wizard; the function is the argument of \<open>setState\<close>.
\<close>

definition submit ::
  "'a create_connection_state_scheme \<Rightarrow> 'a create_connection_state_scheme" where
  "submit state =
     state\<lparr>schema := Val ((spread_schema (schema state))\<lparr>
       definition' := Val (raw_schema ''value''),
       fields' := Val [\<lparr>fieldName = ''value'', fieldType = primitive ''string'', nullable = True\<rparr>],
       format := Val raw_string\<rparr>)\<rparr>"

subsection \<open>\<open>DefineSchema\<close>: the framing and data-format selects\<close>

text \<open>An entry of \<open>framingMethods\<close>; \<open>None\<close> has no \<open>value\<close> property.\<close>

record FramingOption =
  framing_name :: string
  framing_value :: "framing js"

definition framingMethods :: "FramingOption list" where
  "framingMethods = [
     \<lparr>framing_name = ''None'', framing_value = Undefined\<rparr>,
     \<lparr>framing_name = ''Newline'',
      framing_value = Val (Framing (newline Null))\<rparr>
   ]"

text \<open>
  \<open>onFormatChange\<close> of the data-format select: \<open>json\<close> when the value is \<open>'json'\<close>, and
  \<open>raw_string\<close> for every other value. It sets \<open>format\<close> and \<open>fields\<close> only.
\<close>

definition onFormatChange ::
  "string \<Rightarrow> 'a create_connection_state_scheme \<Rightarrow> 'a create_connection_state_scheme" where
  "onFormatChange v state =
     (if v = ''json'' then
        state\<lparr>schema := Val ((spread_schema (schema state))\<lparr>
          format := Val (json \<lparr>unstructured = Undefined, confluentSchemaRegistry = Val False\<rparr>),
          fields' := Val []\<rparr>)\<rparr>
      else
        state\<lparr>schema := Val ((spread_schema (schema state))\<lparr>
          format := Val raw_string,
          fields' := Val []\<rparr>)\<rparr>)"

text \<open>
  \<open>onFramingChange\<close> of the framing select. \<open>framingMethods.find(...)!.value\<close> reads
  \<open>value\<close> of the entry found; the \<open>!\<close> is erased at run time, so a name that is not in
  \<open>framingMethods\<close> raises a \<open>TypeError\<close> before \<open>setState\<close> is called.
\<close>

datatype error = TypeError

definition onFramingChange ::
  "string \<Rightarrow> 'a create_connection_state_scheme \<Rightarrow> error + 'a create_connection_state_scheme" where
  "onFramingChange v state =
     (case js_find (\<lambda>f. framing_name f = v) framingMethods of
        Val f \<Rightarrow>
          Inr (state\<lparr>schema := Val ((spread_schema (schema state))\<lparr>
            fields' := Val [],
            framing := framing_value f\<rparr>)\<rparr>)
      | _ \<Rightarrow> Inl TypeError)"

section \<open>What the components offer\<close>

text \<open>
  Modelled from the spec: \<open>Connector\<close>, \<open>ConnectionProfile\<close> and the hook
  \<open>useConnectionProfiles\<close> are imported from \<open>../../lib/data_fetching\<close>, which is not among
  the source files. The spec gives a profile as \<open>{ id, connectorId, config: opaque map }\<close>.
  The code reads \<open>connector.id\<close>, \<open>c.id\<close> and \<open>config.schemaRegistry\<close>; a \<open>config\<close> is an
  object, read at a property name, with values of a type \<open>'v\<close> the code never inspects.
  The hook returns the profiles (absent until they are loaded) and the loading flag.
\<close>

record Connector =
  connector_id :: string

record 'v ConnectionProfile =
  profile_id :: string
  config :: "string \<Rightarrow> 'v js"

record 'v profiles_hook =
  connectionProfiles :: "'v ConnectionProfile list js"
  connectionProfilesLoading :: bool

subsection \<open>\<open>JsonEditor\<close>: the schema types offered\<close>

record SchemaTypeOption =
  type_name :: string
  type_value :: string

text \<open>
  The local \<open>connectionProfile\<close>: \<open>null\<close> unless \<open>state.connectionProfileId != null\<close>, then
  the first profile whose \<open>id\<close> equals it, or \<open>undefined\<close>.
\<close>

definition connectionProfile ::
  "'v ConnectionProfile list \<Rightarrow> 'a create_connection_state_scheme \<Rightarrow> 'v ConnectionProfile js" where
  "connectionProfile profiles state =
     (if not_nullish (connectionProfileId state)
      then js_find (\<lambda>c. Val (profile_id c) = connectionProfileId state) profiles
      else Null)"

text \<open>
  \<open>schemaTypeOptions\<close> once the \<open>push\<close> has run or not: the condition is
  \<open>connector.id == 'kafka' && connectionProfile != null && config.schemaRegistry != null\<close>.
\<close>

definition schemaTypeOptions ::
  "'c Connector_scheme \<Rightarrow> 'v ConnectionProfile list \<Rightarrow> 'a create_connection_state_scheme
     \<Rightarrow> SchemaTypeOption list" where
  "schemaTypeOptions connector profiles state =
     (let options = [\<lparr>type_name = ''JSON Schema'', type_value = ''json''\<rparr>,
                     \<lparr>type_name = ''Unstructured JSON'', type_value = ''unstructured''\<rparr>]
      in if connector_id connector = ''kafka''
            \<and> (case connectionProfile profiles state of
                  Val p \<Rightarrow> not_nullish (config p ''schemaRegistry'')
                | _ \<Rightarrow> False)
         then options @ [\<lparr>type_name = ''Confluent Schema Registry'', type_value = ''confluent''\<rparr>]
         else options)"

subsection \<open>\<open>DefineSchema\<close>: what is rendered\<close>

text \<open>
  The two editors an entry of \<open>formats\<close> can carry as \<open>el\<close>; both receive the props of
  \<open>DefineSchema\<close> unchanged.
\<close>

datatype editor = JsonEditor | RawStringEditor

record DataFormatOption =
  format_name :: string
  format_value :: string
  el :: "editor js"
  disabled :: "bool js"

definition formats :: "DataFormatOption list" where
  "formats = [
     \<lparr>format_name = ''JSON'', format_value = ''json'', el = Val JsonEditor, disabled = Undefined\<rparr>,
     \<lparr>format_name = ''Raw String'', format_value = ''raw_string'', el = Val RawStringEditor,
      disabled = Undefined\<rparr>,
     \<lparr>format_name = ''Protobuf (coming soon)'', format_value = ''protobuf'', el = Undefined,
      disabled = Val True\<rparr>,
     \<lparr>format_name = ''Avro (coming soon)'', format_value = ''avro'', el = Undefined,
      disabled = Val True\<rparr>
   ]"

text \<open>
  An \<open><option key value disabled>label</option>\<close> of a select, and the element
  \<open>DefineSchema\<close> returns: the empty fragment \<open><></>\<close>, or the stack of the framing
  select, the data-format select and the editor of the selected format
  (\<open>formats.find(f => f.value === selectedFormat)?.el\<close>).
\<close>

record select_option =
  option_value :: string
  option_label :: string
  option_disabled :: "bool js"

datatype element =
  EmptyFragment
| Stack (framing_select: "select_option list") (format_select: "select_option list")
    (shown_editor: "editor js")

definition DefineSchema :: "'v profiles_hook \<Rightarrow> string js \<Rightarrow> element" where
  "DefineSchema hook selectedFormat =
     (if connectionProfilesLoading hook then EmptyFragment
      else Stack
        (map (\<lambda>f. \<lparr>option_value = framing_name f, option_label = framing_name f,
                    option_disabled = Undefined\<rparr>) framingMethods)
        (map (\<lambda>f. \<lparr>option_value = format_value f, option_label = format_name f,
                    option_disabled = disabled f\<rparr>) formats)
        (case js_find (\<lambda>f. Val (format_value f) = selectedFormat) formats of
           Val f \<Rightarrow> el f
         | _ \<Rightarrow> Undefined))"

text \<open>
  The data formats an element offers: the values of the options of its data-format select
  that are not disabled; an empty fragment has no select. The schema types are offered by a
  mounted \<open>JsonEditor\<close> only.
\<close>

fun offered_formats :: "element \<Rightarrow> string list" where
  "offered_formats EmptyFragment = []"
| "offered_formats (Stack _ fs _) =
     map option_value (filter (\<lambda>opt. option_disabled opt \<noteq> Val True) fs)"

fun offered_framings :: "element \<Rightarrow> string list" where
  "offered_framings EmptyFragment = []"
| "offered_framings (Stack frs _ _) =
     map option_value (filter (\<lambda>opt. option_disabled opt \<noteq> Val True) frs)"

fun mounted_editor :: "element \<Rightarrow> editor js" where
  "mounted_editor EmptyFragment = Undefined"
| "mounted_editor (Stack _ _ e) = e"

definition offered_schema_types ::
  "element \<Rightarrow> 'c Connector_scheme \<Rightarrow> 'v ConnectionProfile list
     \<Rightarrow> 'a create_connection_state_scheme \<Rightarrow> string list" where
  "offered_schema_types e connector profiles state =
     (if mounted_editor e = Val JsonEditor
      then map type_value (schemaTypeOptions connector profiles state)
      else [])"

section \<open>Reading a draft\<close>

text \<open>
  \<open>state.schema?.fields\<close> and its siblings: a property of the schema, \<open>undefined\<close> when the
  schema is \<open>null\<close> or absent.
\<close>

definition schema_fields :: "'a create_connection_state_scheme \<Rightarrow> source_field list js" where
  "schema_fields state = fields' (spread_schema (schema state))"

definition schema_definition :: "'a create_connection_state_scheme \<Rightarrow> schema_definition js" where
  "schema_definition state = definition' (spread_schema (schema state))"

definition schema_format :: "'a create_connection_state_scheme \<Rightarrow> format js" where
  "schema_format state = format (spread_schema (schema state))"

definition schema_framing :: "'a create_connection_state_scheme \<Rightarrow> framing js" where
  "schema_framing state = framing (spread_schema (schema state))"

section \<open>Sequences of selections\<close>

text \<open>
  A format selection is a change of the data-format select of \<open>DefineSchema\<close> or of the
  schema-type select of \<open>JsonEditor\<close>, each with the value selected. Each event is handled
  on the draft the previous one left.
\<close>

datatype selection = DataFormat string | SchemaType string

fun select :: "selection \<Rightarrow> 'a create_connection_state_scheme \<Rightarrow> 'a create_connection_state_scheme" where
  "select (DataFormat v) state = onFormatChange v state"
| "select (SchemaType v) state = onChange v state"

fun selections :: "selection list \<Rightarrow> 'a create_connection_state_scheme \<Rightarrow> 'a create_connection_state_scheme" where
  "selections [] state = state"
| "selections (s # ss) state = selections ss (select s state)"

text \<open>The values the \<open>switch\<close> of \<open>onChange\<close> has a case for.\<close>

fun handled :: "selection \<Rightarrow> bool" where
  "handled (DataFormat v) = True"
| "handled (SchemaType v) = (v = ''json'' \<or> v = ''confluent'' \<or> v = ''unstructured'')"

text \<open>
  The definition the spec calls canonical for a schema type: empty JSON-schema text for
  \<open>json\<close>, the raw schema \<open>value\<close> for \<open>unstructured\<close>, \<open>null\<close> for \<open>confluent\<close>.
\<close>

definition canonical_definition :: "string \<Rightarrow> schema_definition js" where
  "canonical_definition v =
     (if v = ''json'' then Val (json_schema '''')
      else if v = ''unstructured'' then Val (raw_schema ''value'')
      else Null)"

section \<open>Example drafts and contexts\<close>

text \<open>The draft of a wizard just opened, and a draft that names a profile.\<close>

definition empty_draft :: create_connection_state where
  "empty_draft = \<lparr>connectionProfileId = Null, schema = Null\<rparr>"

definition profile_draft :: create_connection_state where
  "profile_draft = \<lparr>connectionProfileId = Val ''p1'', schema = Null\<rparr>"

text \<open>A draft whose raw-string branch was completed under newline framing.\<close>

definition raw_string_draft :: create_connection_state where
  "raw_string_draft = \<lparr>connectionProfileId = Val ''p1'', schema = Val
     \<lparr>format = Val raw_string,
      framing = Val (Framing (newline Null)),
      fields' = Val [\<lparr>fieldName = ''value'', fieldType = primitive ''string'', nullable = True\<rparr>],
      definition' = Val (raw_schema ''value'')\<rparr>\<rparr>"

definition kafka :: Connector where
  "kafka = \<lparr>connector_id = ''kafka''\<rparr>"

definition registry_profile :: "string ConnectionProfile" where
  "registry_profile = \<lparr>profile_id = ''p1'',
     config = (\<lambda>k. if k = ''schemaRegistry'' then Val ''{}''
                    else if k = ''bootstrapServers'' then Val ''localhost:9092''
                    else Undefined)\<rparr>"

definition plain_profile :: "string ConnectionProfile" where
  "plain_profile = \<lparr>profile_id = ''p1'',
     config = (\<lambda>k. if k = ''bootstrapServers'' then Val ''localhost:9092'' else Undefined)\<rparr>"

definition loading_hook :: "string profiles_hook" where
  "loading_hook = \<lparr>connectionProfiles = Undefined, connectionProfilesLoading = True\<rparr>"

definition loaded_hook :: "string profiles_hook" where
  "loaded_hook = \<lparr>connectionProfiles = Val [registry_profile], connectionProfilesLoading = False\<rparr>"

text \<open>
  A draft with one more property than the handlers name (here a \<open>name\<close>), carried in the
  \<open>more\<close> part of the record.
\<close>

definition named_draft :: "string create_connection_state_scheme" where
  "named_draft = create_connection_state.extend raw_string_draft ''orders''"


section \<open>The schema-type transitions\<close>

text \<open>
  C6. For every draft, choosing the schema type \<open>json\<close> gives a draft whose format is
  \<open>json\<close> with \<open>unstructured\<close> and \<open>confluentSchemaRegistry\<close> both false, whose definition is
  a JSON schema with empty text, and whose fields are the empty list.
\<close>

theorem onChange_json:
  "schema_format (onChange ''json'' state)
     = Val (json \<lparr>unstructured = Val False, confluentSchemaRegistry = Val False\<rparr>)
   \<and> schema_definition (onChange ''json'' state) = Val (json_schema '''')
   \<and> schema_fields (onChange ''json'' state) = Val []"
  by (simp add: onChange_def schema_format_def schema_definition_def schema_fields_def)

theorem onChange_json_witness:
  "schema_fields raw_string_draft \<noteq> Val []
   \<and> schema_definition raw_string_draft \<noteq> Val (json_schema '''')
   \<and> schema_format (onChange ''json'' raw_string_draft)
     = Val (json \<lparr>unstructured = Val False, confluentSchemaRegistry = Val False\<rparr>)
   \<and> schema_definition (onChange ''json'' raw_string_draft) = Val (json_schema '''')
   \<and> schema_fields (onChange ''json'' raw_string_draft) = Val []"
  using onChange_json [of raw_string_draft]
  by (simp add: raw_string_draft_def schema_fields_def schema_definition_def)

text \<open>
  C7. For every draft, choosing the schema type \<open>confluent\<close> gives a draft whose format is
  \<open>json\<close> with \<open>confluentSchemaRegistry\<close> true, whose definition is \<open>null\<close>, and whose
  fields are the empty list.
\<close>

theorem onChange_confluent:
  "schema_format (onChange ''confluent'' state)
     = Val (json \<lparr>unstructured = Val False, confluentSchemaRegistry = Val True\<rparr>)
   \<and> schema_definition (onChange ''confluent'' state) = Null
   \<and> schema_fields (onChange ''confluent'' state) = Val []"
  by (simp add: onChange_def schema_format_def schema_definition_def schema_fields_def)

theorem onChange_confluent_witness:
  "schema_fields raw_string_draft \<noteq> Val []
   \<and> schema_definition raw_string_draft \<noteq> Null
   \<and> schema_format (onChange ''confluent'' raw_string_draft)
     = Val (json \<lparr>unstructured = Val False, confluentSchemaRegistry = Val True\<rparr>)
   \<and> schema_definition (onChange ''confluent'' raw_string_draft) = Null
   \<and> schema_fields (onChange ''confluent'' raw_string_draft) = Val []"
  using onChange_confluent [of raw_string_draft]
  by (simp add: raw_string_draft_def schema_fields_def schema_definition_def)

section \<open>Completing the raw-string branch\<close>

text \<open>
  C4. For every draft, pressing Continue in the raw-string editor gives a draft whose
  schema has exactly one field, named \<open>value\<close>, of the primitive type \<open>string\<close> and
  nullable, with the definition \<open>{ raw_schema: 'value' }\<close> and the format \<open>raw_string\<close>.
\<close>

theorem submit_raw_string:
  "schema_fields (submit state)
     = Val [\<lparr>fieldName = ''value'', fieldType = primitive ''string'', nullable = True\<rparr>]
   \<and> schema_definition (submit state) = Val (raw_schema ''value'')
   \<and> schema_format (submit state) = Val raw_string"
  by (simp add: submit_def schema_format_def schema_definition_def schema_fields_def)

theorem submit_raw_string_witness:
  "schema_fields empty_draft = Undefined
   \<and> schema_fields (submit empty_draft)
     = Val [\<lparr>fieldName = ''value'', fieldType = primitive ''string'', nullable = True\<rparr>]
   \<and> schema_definition (submit empty_draft) = Val (raw_schema ''value'')
   \<and> schema_format (submit empty_draft) = Val raw_string"
  using submit_raw_string [of empty_draft]
  by (simp add: empty_draft_def schema_fields_def)

section \<open>Sequences of format selections\<close>

lemma selections_snoc: "selections (ss @ [s]) state = select s (selections ss state)"
  by (induction ss arbitrary: state) simp_all

lemma select_fields: "handled s \<Longrightarrow> schema_fields (select s state) = Val []"
  by (cases s) (auto simp: onChange_def onFormatChange_def schema_fields_def)

lemma onFormatChange_definition:
  "schema_definition (onFormatChange v state) = schema_definition state"
  by (simp add: onFormatChange_def schema_definition_def)

lemma onChange_definition:
  "handled (SchemaType v) \<Longrightarrow> schema_definition (onChange v state) = canonical_definition v"
  by (auto simp: onChange_def schema_definition_def canonical_definition_def)

lemma onChange_unhandled: "\<not> handled (SchemaType v) \<Longrightarrow> onChange v state = state"
  by (simp add: onChange_def)

lemma selections_last:
  assumes "sels \<noteq> []" and "\<forall>s \<in> set sels. handled s"
  shows "schema_fields (selections sels state) = Val []
    \<and> (case last sels of
          SchemaType v \<Rightarrow> schema_definition (selections sels state) = canonical_definition v
        | DataFormat v \<Rightarrow> schema_definition (selections sels state)
                           = schema_definition (selections (butlast sels) state))"
proof -
  from assms(1) obtain ss s where sels: "sels = ss @ [s]"
    by (cases sels rule: rev_cases) auto
  with assms(2) have h: "handled s"
    by simp
  have f: "schema_fields (select s (selections ss state)) = Val []"
    using h by (rule select_fields)
  show ?thesis
  proof (cases s)
    case (DataFormat v)
    with f show ?thesis
      by (simp add: sels selections_snoc onFormatChange_definition)
  next
    case (SchemaType v)
    with f h show ?thesis
      by (simp add: sels selections_snoc onChange_definition)
  qed
qed

text \<open>
  C1, as the code has it. Take any sequence of format selections (changes of the
  data-format select, and changes of the schema-type select to \<open>json\<close>, \<open>unstructured\<close> or
  \<open>confluent\<close>) applied to a draft. After each selection, the \<open>n\<close>-th say, the draft's
  schema fields are the empty list. If that selection was of a schema type, the definition
  is the canonical one for the type: empty JSON-schema text, the raw schema \<open>value\<close>, or
  \<open>null\<close>. If it was a change of the data-format select, the definition is what it was
  before that change: \<open>onFormatChange\<close> writes \<open>format\<close> and \<open>fields\<close> only.
\<close>

theorem selections_reset:
  assumes "\<forall>s \<in> set sels. handled s" and "0 < n" and "n \<le> length sels"
  shows "schema_fields (selections (take n sels) state) = Val []
    \<and> (case sels ! (n - 1) of
          SchemaType v \<Rightarrow>
            schema_definition (selections (take n sels) state) = canonical_definition v
        | DataFormat v \<Rightarrow>
            schema_definition (selections (take n sels) state)
              = schema_definition (selections (take (n - 1) sels) state))"
proof -
  from assms(2,3) have ne: "take n sels \<noteq> []"
    by auto
  from assms(1) have all: "\<forall>s \<in> set (take n sels). handled s"
    by (meson in_set_takeD)
  from ne assms(2,3) have l: "last (take n sels) = sels ! (n - 1)"
    by (simp add: last_conv_nth)
  from assms(3) have b: "butlast (take n sels) = take (n - 1) sels"
    by (simp add: butlast_take)
  from selections_last [OF ne all, of state] show ?thesis
    by (simp only: l b)
qed

theorem selections_reset_witness:
  "schema_fields raw_string_draft \<noteq> Val []
   \<and> schema_fields (selections [DataFormat ''json''] raw_string_draft) = Val []
   \<and> schema_definition (selections [DataFormat ''json''] raw_string_draft)
       = schema_definition raw_string_draft
   \<and> schema_fields (selections [DataFormat ''json'', SchemaType ''confluent''] raw_string_draft)
       = Val []
   \<and> schema_definition (selections [DataFormat ''json'', SchemaType ''confluent''] raw_string_draft)
       = Null"
  using selections_reset [of "[DataFormat ''json'', SchemaType ''confluent'']" 1 raw_string_draft]
    selections_reset [of "[DataFormat ''json'', SchemaType ''confluent'']" 2 raw_string_draft]
  by (simp add: canonical_definition_def raw_string_draft_def schema_fields_def)

text \<open>
  The claim as stated fails at the data-format select: on a draft whose raw-string branch
  was completed, selecting \<open>json\<close> leaves the raw-schema definition in place, and on a draft
  whose JSON-schema type was chosen, selecting \<open>raw_string\<close> leaves the JSON-schema
  definition in place.
\<close>

theorem selections_stale_definition:
  "schema_definition (selections [DataFormat ''json''] raw_string_draft) = Val (raw_schema ''value'')
   \<and> schema_definition (selections [DataFormat ''json''] raw_string_draft) \<noteq> Val (json_schema '''')
   \<and> schema_definition (selections [SchemaType ''json'', DataFormat ''raw_string''] empty_draft)
       = Val (json_schema '''')
   \<and> schema_definition (selections [SchemaType ''json'', DataFormat ''raw_string''] empty_draft)
       \<noteq> Val (raw_schema ''value'')"
  by (simp add: raw_string_draft_def empty_draft_def onFormatChange_def onChange_def
      schema_definition_def)

section \<open>The schema types offered\<close>

lemma js_find_find:
  "js_find P xs = (case find P xs of None \<Rightarrow> Undefined | Some x \<Rightarrow> Val x)"
  by (induction xs) simp_all

lemma not_nullish_iff: "not_nullish x = (\<exists>v. x = Val v)"
  by (cases x) simp_all

lemma connectionProfile_Val:
  "(connectionProfile profiles state = Val p)
     = (\<exists>pid. connectionProfileId state = Val pid
          \<and> find (\<lambda>c. profile_id c = pid) profiles = Some p)"
  by (cases "connectionProfileId state")
     (auto simp: connectionProfile_def js_find_find split: option.splits)

text \<open>
  C2. For every connector, list of connection profiles and draft, the schema-type option
  \<open>confluent\<close> is offered if and only if the connector's id is \<open>kafka\<close>, the draft names a
  connection profile, a profile with that id is found (the first such), and the \<open>config\<close>
  of that profile has a \<open>schemaRegistry\<close> that is neither \<open>null\<close> nor absent. When it is
  not offered, the options are exactly JSON Schema and Unstructured JSON.
\<close>

theorem confluent_offered_iff:
  "(''confluent'' \<in> set (map type_value (schemaTypeOptions connector profiles state)))
     = (connector_id connector = ''kafka''
        \<and> (\<exists>pid p v. connectionProfileId state = Val pid
              \<and> find (\<lambda>c. profile_id c = pid) profiles = Some p
              \<and> config p ''schemaRegistry'' = Val v))
   \<and> (''confluent'' \<notin> set (map type_value (schemaTypeOptions connector profiles state))
        \<longrightarrow> schemaTypeOptions connector profiles state
              = [\<lparr>type_name = ''JSON Schema'', type_value = ''json''\<rparr>,
                 \<lparr>type_name = ''Unstructured JSON'', type_value = ''unstructured''\<rparr>])"
proof -
  have "(case connectionProfile profiles state of
           Val p \<Rightarrow> not_nullish (config p ''schemaRegistry'') | _ \<Rightarrow> False)
        = (\<exists>pid p v. connectionProfileId state = Val pid
              \<and> find (\<lambda>c. profile_id c = pid) profiles = Some p
              \<and> config p ''schemaRegistry'' = Val v)"
  proof (cases "connectionProfile profiles state")
    case (Val p)
    then show ?thesis
      using connectionProfile_Val [of profiles state p]
      by (auto simp: not_nullish_iff)
  next
    case Undefined
    then show ?thesis
      using connectionProfile_Val [of profiles state] by auto
  next
    case Null
    then show ?thesis
      using connectionProfile_Val [of profiles state] by auto
  qed
  then show ?thesis
    by (simp add: schemaTypeOptions_def Let_def)
qed

theorem confluent_offered_witness:
  "''confluent'' \<in> set (map type_value (schemaTypeOptions kafka [registry_profile] profile_draft))
   \<and> schemaTypeOptions kafka [plain_profile] profile_draft
        = [\<lparr>type_name = ''JSON Schema'', type_value = ''json''\<rparr>,
           \<lparr>type_name = ''Unstructured JSON'', type_value = ''unstructured''\<rparr>]"
proof -
  have "connector_id kafka = ''kafka''
    \<and> (\<exists>pid p v. connectionProfileId profile_draft = Val pid
          \<and> find (\<lambda>c. profile_id c = pid) [registry_profile] = Some p
          \<and> config p ''schemaRegistry'' = Val v)"
    by (simp add: kafka_def registry_profile_def profile_draft_def)
  then have a: "''confluent''
      \<in> set (map type_value (schemaTypeOptions kafka [registry_profile] profile_draft))"
    by (rule confluent_offered_iff [of kafka "[registry_profile]" profile_draft,
          THEN conjunct1, THEN iffD2])
  have b: "''confluent''
      \<notin> set (map type_value (schemaTypeOptions kafka [plain_profile] profile_draft))"
    by (simp add: kafka_def plain_profile_def profile_draft_def
        schemaTypeOptions_def connectionProfile_def)
  from b confluent_offered_iff [of kafka "[plain_profile]" profile_draft, THEN conjunct2]
  have "schemaTypeOptions kafka [plain_profile] profile_draft
        = [\<lparr>type_name = ''JSON Schema'', type_value = ''json''\<rparr>,
           \<lparr>type_name = ''Unstructured JSON'', type_value = ''unstructured''\<rparr>]"
    by (rule rev_mp)
  with a show ?thesis
    by (rule conjI)
qed

section \<open>Framing\<close>

lemma onFramingChange_unknown:
  "v \<notin> set (map framing_name framingMethods) \<Longrightarrow> onFramingChange v state = Inl TypeError"
  by (auto simp: onFramingChange_def framingMethods_def)

text \<open>
  What the framing select itself stores: \<open>Newline\<close> stores the entry of \<open>framingMethods\<close>,
  whose \<open>maxLineLength\<close> is \<open>null\<close>, and no framing change stores a length. A draft gets a
  length from outside this component.
\<close>

lemma onFramingChange_Newline:
  "\<exists>state'. onFramingChange ''Newline'' state = Inr state'
     \<and> schema_framing state' = Val (Framing (newline Null))"
  by (simp add: onFramingChange_def framingMethods_def schema_framing_def)

lemma onFramingChange_no_length:
  "onFramingChange v state = Inr state' \<Longrightarrow> schema_framing state' \<noteq> Val (Framing (newline (Val n)))"
  by (auto simp: onFramingChange_def framingMethods_def schema_framing_def split: if_splits)



text \<open>
  C5. For every draft and every framing the select offers, the framing change succeeds
  and resets the draft's schema fields to the empty list, and applying the same framing
  change to the resulting draft gives that draft again.
\<close>

theorem onFramingChange_resets_fields:
  assumes "v \<in> set (map framing_name framingMethods)"
  shows "\<exists>state'. onFramingChange v state = Inr state'
     \<and> schema_fields state' = Val []
     \<and> onFramingChange v state' = Inr state'"
  using assms
  by (auto simp: onFramingChange_def framingMethods_def schema_fields_def)

theorem onFramingChange_resets_fields_witness:
  "schema_fields raw_string_draft \<noteq> Val []
   \<and> ''None'' \<in> set (map framing_name framingMethods)
   \<and> (\<exists>state'. onFramingChange ''None'' raw_string_draft = Inr state'
        \<and> schema_fields state' = Val []
        \<and> schema_framing state' = Undefined
        \<and> onFramingChange ''None'' state' = Inr state')"
  using onFramingChange_resets_fields [of "''None''" raw_string_draft]
  by (auto simp: framingMethods_def raw_string_draft_def schema_fields_def schema_framing_def
      onFramingChange_def)

section \<open>The service contract\<close>

lemma methods_names:
  "map name methods = [''CreateConnection'', ''TestConnection'', ''GetConnections'',
     ''DeleteConnection'', ''CreateSource'', ''GetSources'', ''DeleteSource'', ''CreateSink'',
     ''GetSinks'', ''DeleteSink'', ''GetConfluentSchema'', ''GetSourceMetadata'', ''TestSchema'',
     ''TestSource'', ''CreatePipeline'', ''GraphForPipeline'', ''GetPipeline'', ''CreateJob'',
     ''DeleteJob'', ''StartPipeline'', ''PreviewPipeline'', ''GetJobs'', ''GetJobDetails'',
     ''GetCheckpoints'', ''GetCheckpointDetail'', ''GetOperatorErrors'', ''GetJobMetrics'',
     ''UpdateJob'', ''SubscribeToOutput'']"
  by (simp add: methods_def)

lemma methods_distinct: "distinct (map name methods)"
  unfolding methods_names by code_simp

lemma methods_streaming:
  "map name (filter (\<lambda>m. kind m = ServerStreaming) methods)
     = [''TestSource'', ''SubscribeToOutput'']"
  by (simp add: methods_def)

lemma methods_unary:
  "\<forall>m \<in> set methods.
     name m \<noteq> ''TestSource'' \<and> name m \<noteq> ''SubscribeToOutput'' \<longrightarrow> kind m = Unary"
  by (simp add: methods_def)

text \<open>
  C8. In \<open>ApiGrpc.methods\<close> no two operations have the same name; the operations of kind
  server streaming are exactly \<open>TestSource\<close> and \<open>SubscribeToOutput\<close>; every other operation
  is unary.
\<close>

theorem methods_unique_and_kinds:
  "distinct (map name methods)
   \<and> map name (filter (\<lambda>m. kind m = ServerStreaming) methods)
       = [''TestSource'', ''SubscribeToOutput'']
   \<and> (\<forall>m \<in> set methods.
         name m \<noteq> ''TestSource'' \<and> name m \<noteq> ''SubscribeToOutput'' \<longrightarrow> kind m = Unary)"
  by (rule conjI [OF methods_distinct conjI [OF methods_streaming methods_unary]])

theorem methods_unique_and_kinds_witness:
  "hd methods \<in> set methods \<and> name (hd methods) = ''CreateConnection''
   \<and> kind (hd methods) = Unary"
proof -
  have m: "hd methods \<in> set methods"
    by (simp add: methods_def)
  have n: "name (hd methods) = ''CreateConnection''"
    by (simp add: methods_def)
  have "\<forall>m \<in> set methods.
      name m \<noteq> ''TestSource'' \<and> name m \<noteq> ''SubscribeToOutput'' \<longrightarrow> kind m = Unary"
    by (rule methods_unique_and_kinds [THEN conjunct2, THEN conjunct2])
  from bspec [OF this m] n have "kind (hd methods) = Unary"
    by simp
  with m n show ?thesis
    by simp
qed

section \<open>While the profiles load\<close>

lemma loaded_offers_formats:
  "\<not> connectionProfilesLoading hook
     \<Longrightarrow> offered_formats (DefineSchema hook selectedFormat) = [''json'', ''raw_string'']"
  by (simp add: DefineSchema_def formats_def)

text \<open>
  C9. Whenever the profiles hook reports loading, \<open>DefineSchema\<close> returns the empty
  fragment: no data format and no framing is offered, no editor is mounted, and so no
  schema type (the Confluent one included) is offered, whatever was selected before.
\<close>

theorem loading_offers_nothing:
  assumes "connectionProfilesLoading hook"
  shows "DefineSchema hook selectedFormat = EmptyFragment
    \<and> offered_formats (DefineSchema hook selectedFormat) = []
    \<and> offered_framings (DefineSchema hook selectedFormat) = []
    \<and> mounted_editor (DefineSchema hook selectedFormat) = Undefined
    \<and> offered_schema_types (DefineSchema hook selectedFormat) connector profiles state = []"
  using assms by (simp add: DefineSchema_def offered_schema_types_def)

theorem loading_offers_nothing_witness:
  "connectionProfilesLoading loading_hook
   \<and> offered_formats (DefineSchema loading_hook (Val ''json'')) = []
   \<and> offered_schema_types (DefineSchema loading_hook (Val ''json''))
        kafka [registry_profile] profile_draft = []
   \<and> offered_formats (DefineSchema loaded_hook (Val ''json'')) = [''json'', ''raw_string'']
   \<and> offered_schema_types (DefineSchema loaded_hook (Val ''json''))
        kafka [registry_profile] profile_draft = [''json'', ''unstructured'', ''confluent'']"
  using loading_offers_nothing
    [of loading_hook "Val ''json''" kafka "[registry_profile]" profile_draft]
  by (simp add: loading_hook_def loaded_hook_def DefineSchema_def formats_def
      offered_schema_types_def schemaTypeOptions_def connectionProfile_def kafka_def
      registry_profile_def profile_draft_def)

section \<open>What the transitions leave alone\<close>

text \<open>
  C10. A framing change leaves the draft's schema format and definition unchanged; a
  change of the data format, a change of the schema type and the raw-string Continue leave
  the draft's schema framing unchanged; and each of them leaves \<open>connectionProfileId\<close> and
  every property of the draft other than \<open>schema\<close> unchanged.
\<close>

theorem transitions_frame:
  "(\<forall>state'. onFramingChange v state = Inr state' \<longrightarrow>
       schema_format state' = schema_format state
     \<and> schema_definition state' = schema_definition state
     \<and> connectionProfileId state' = connectionProfileId state
     \<and> create_connection_state.more state' = create_connection_state.more state)
   \<and> schema_framing (onFormatChange v state) = schema_framing state
   \<and> connectionProfileId (onFormatChange v state) = connectionProfileId state
   \<and> create_connection_state.more (onFormatChange v state) = create_connection_state.more state
   \<and> schema_framing (onChange v state) = schema_framing state
   \<and> connectionProfileId (onChange v state) = connectionProfileId state
   \<and> create_connection_state.more (onChange v state) = create_connection_state.more state
   \<and> schema_framing (submit state) = schema_framing state
   \<and> connectionProfileId (submit state) = connectionProfileId state
   \<and> create_connection_state.more (submit state) = create_connection_state.more state"
  by (auto simp: onFramingChange_def onFormatChange_def onChange_def submit_def
      schema_format_def schema_definition_def schema_framing_def split: js.splits)

theorem transitions_frame_witness:
  "onFramingChange ''None'' named_draft = Inr (named_draft\<lparr>schema := Val
       \<lparr>format = Val raw_string, framing = Undefined, fields' = Val [],
        definition' = Val (raw_schema ''value'')\<rparr>\<rparr>)
   \<and> schema_format named_draft = Val raw_string
   \<and> schema_definition named_draft = Val (raw_schema ''value'')
   \<and> schema_framing named_draft = Val (Framing (newline Null))
   \<and> schema_framing (onChange ''confluent'' named_draft) = Val (Framing (newline Null))
   \<and> create_connection_state.more (onChange ''confluent'' named_draft) = ''orders''"
  using transitions_frame [of "''None''" named_draft]
    transitions_frame [of "''confluent''" named_draft]
  by (simp add: named_draft_def raw_string_draft_def create_connection_state.extend_def
      onFramingChange_def framingMethods_def onChange_def schema_framing_def
      schema_format_def schema_definition_def)

end
